theory Spec2Isabelle
  imports Main "HOL-Library.Word"
begin

section \<open>The instruction encoder of datanexus\<close>

text \<open>
  The repository holds three revisions of the module \<^verbatim>\<open>instruction.ts\<close>:
  \<^item> \<^verbatim>\<open>js/src/instruction.ts\<close>: every builder has a body and the payload is built with
    \<^verbatim>\<open>Uint8Array.of(opcode, ...hash)\<close>; its definitions carry the source's names;
  \<^item> \<^verbatim>\<open>js/instruction.ts\<close>, first revision: \<^verbatim>\<open>initUserAccountIx\<close> and
    \<^verbatim>\<open>initDataAccountIx\<close> are as above, the other three builders have an empty body;
    the definitions of the empty builders carry the suffix \<open>_stub\<close>;
  \<^item> \<^verbatim>\<open>js/instruction.ts\<close>, second revision: the hash is an array of buffers and the
    payload is built with \<^verbatim>\<open>Buffer.concat\<close>; its definitions carry the suffix
    \<open>_concat\<close>.
  \<^verbatim>\<open>initUserAccountIx\<close> is the same text in the three revisions and is modelled once.
\<close>

subsection \<open>Data\<close>

type_synonym byte = "8 word"

text \<open>A public key is an opaque value for this module; it is only stored and compared.\<close>

datatype PublicKey = PublicKey "byte list"

datatype AccountType = OWNER | ACCESS

fun AccountType_value :: "AccountType \<Rightarrow> int" where
  "AccountType_value OWNER = 0"
| "AccountType_value ACCESS = 1"

record AccountMeta =
  pubkey :: PublicKey
  isSigner :: bool
  isWritable :: bool

text \<open>
  The \<^verbatim>\<open>data\<close> field of an instruction is whatever value the builder stores there: a
  buffer in every builder but \<^verbatim>\<open>purchaseAccess\<close> of the \<open>_concat\<close> revision, which
  stores the array of buffers itself.
\<close>

datatype InstructionData = BufferData "byte list" | ArrayData "byte list list"

record TransactionInstruction =
  programId :: PublicKey
  keys :: "AccountMeta list"
  data :: InstructionData

datatype error = TypeError | ReferenceError

text \<open>
  Every builder is an \<^verbatim>\<open>async\<close> function. Its promise is rejected with an error
  (\<open>Inl e\<close>), fulfilled with an instruction (\<open>Inr (Some ix)\<close>), or fulfilled with
  \<^verbatim>\<open>undefined\<close> when the body ends without \<^verbatim>\<open>return\<close> (\<open>Inr None\<close>).
\<close>

type_synonym promise = "error + TransactionInstruction option"

text \<open>
  Modelled from the spec: the type \<^verbatim>\<open>Params\<close> is declared nowhere in the source; the
  spec describes it as an opaque, pre-serialized byte sequence supplied by the caller.
\<close>

type_synonym Params = "byte list"

text \<open>
  Modelled from the spec: the class \<^verbatim>\<open>Numberu64\<close> and its method \<^verbatim>\<open>toBuffer\<close> are declared
  nowhere in the source; the spec describes an amount as an unsigned 64-bit quantity
  encoded in 8 bytes, little-endian.
\<close>

type_synonym Numberu64 = "64 word"

definition Numberu64_toBuffer :: "Numberu64 \<Rightarrow> byte list" where
  "Numberu64_toBuffer amount =
     [ucast amount, ucast (drop_bit 8 amount), ucast (drop_bit 16 amount),
      ucast (drop_bit 24 amount), ucast (drop_bit 32 amount), ucast (drop_bit 40 amount),
      ucast (drop_bit 48 amount), ucast (drop_bit 56 amount)]"

subsection \<open>The JavaScript operations the builders use\<close>

text \<open>
  \<^verbatim>\<open>Uint8Array.of(x, ...)\<close> stores each number modulo 256. Spreading a
  \<^verbatim>\<open>Uint8Array\<close> yields its elements as numbers; spreading a number primitive raises a
  \<^verbatim>\<open>TypeError\<close>, whatever its value, since a number is not iterable (a number is
  modelled by an integer; no builder computes with it).
  \<^verbatim>\<open>Buffer.from\<close> copies the bytes and \<^verbatim>\<open>Buffer.concat\<close> appends the buffers of a list.
\<close>

definition Uint8Array_of :: "int list \<Rightarrow> byte list" where
  "Uint8Array_of xs = map word_of_int xs"

definition spread_Uint8Array :: "byte list \<Rightarrow> int list" where
  "spread_Uint8Array bs = map uint bs"

definition spread_number :: "int \<Rightarrow> error + int list" where
  "spread_number n = Inl TypeError"

definition Buffer_from :: "byte list \<Rightarrow> byte list" where
  "Buffer_from bs = bs"

definition Buffer_concat :: "byte list list \<Rightarrow> byte list" where
  "Buffer_concat bufs = concat bufs"

subsection \<open>The builders of \<^verbatim>\<open>js/src/instruction.ts\<close>\<close>

text \<open>
  \<^verbatim>\<open>DATANEXUS_PROGRAM_ID\<close> is a constant that the module reads and does not declare; the
  key made from it is the first parameter \<open>dataNexusProgramId\<close> of each builder.
\<close>

definition initUserAccountIx ::
  "PublicKey \<Rightarrow> PublicKey \<Rightarrow> PublicKey \<Rightarrow> PublicKey \<Rightarrow> PublicKey \<Rightarrow> AccountType \<Rightarrow> promise" where
  "initUserAccountIx dataNexusProgramId payer authority userAccount systemProgram accountType =
     Inr (Some \<lparr>
       programId = dataNexusProgramId,
       keys = [
         \<lparr>pubkey = payer, isSigner = True, isWritable = True\<rparr>,
         \<lparr>pubkey = authority, isSigner = False, isWritable = True\<rparr>,
         \<lparr>pubkey = userAccount, isSigner = False, isWritable = True\<rparr>,
         \<lparr>pubkey = systemProgram, isSigner = False, isWritable = False\<rparr>],
       data = BufferData (Buffer_from (Uint8Array_of [0, AccountType_value accountType]))\<rparr>)"

definition initDataAccountIx ::
  "PublicKey \<Rightarrow> PublicKey \<Rightarrow> PublicKey \<Rightarrow> PublicKey \<Rightarrow> PublicKey \<Rightarrow> byte list \<Rightarrow> promise" where
  "initDataAccountIx dataNexusProgramId authority ownerAccount datasetAccount systemProgram hash =
     Inr (Some \<lparr>
       programId = dataNexusProgramId,
       keys = [
         \<lparr>pubkey = authority, isSigner = True, isWritable = True\<rparr>,
         \<lparr>pubkey = ownerAccount, isSigner = False, isWritable = True\<rparr>,
         \<lparr>pubkey = datasetAccount, isSigner = False, isWritable = True\<rparr>,
         \<lparr>pubkey = systemProgram, isSigner = False, isWritable = False\<rparr>],
       data = BufferData (Buffer_from (Uint8Array_of (1 # spread_Uint8Array hash)))\<rparr>)"

text \<open>
  In \<^verbatim>\<open>setDataParams\<close> the parameter is spelled \<^verbatim>\<open>dataSetAccount\<close> and the key list
  reads \<^verbatim>\<open>datasetAccount\<close>, a name that no declaration of the module binds: reading it
  raises a \<^verbatim>\<open>ReferenceError\<close> before the instruction is constructed.
\<close>

definition module_scope_datasetAccount :: "PublicKey option" where
  "module_scope_datasetAccount = None"

definition setDataParams ::
  "PublicKey \<Rightarrow> PublicKey \<Rightarrow> PublicKey \<Rightarrow> byte list \<Rightarrow> Params \<Rightarrow> promise" where
  "setDataParams dataNexusProgramId authority dataSetAccount hash params =
     (case module_scope_datasetAccount of
        None \<Rightarrow> Inl ReferenceError
      | Some datasetAccount \<Rightarrow>
          Inr (Some \<lparr>
            programId = dataNexusProgramId,
            keys = [
              \<lparr>pubkey = authority, isSigner = True, isWritable = True\<rparr>,
              \<lparr>pubkey = datasetAccount, isSigner = False, isWritable = True\<rparr>],
            data = BufferData (Buffer_from (Uint8Array_of (2 # spread_Uint8Array hash)))\<rparr>))"

text \<open>
  In \<^verbatim>\<open>purchaseAccess\<close> the amount is a \<^verbatim>\<open>number\<close> and the payload expression spreads
  it: \<^verbatim>\<open>Uint8Array.of(3, ...hash, ...amount)\<close>.
\<close>

definition purchaseAccess ::
  "PublicKey \<Rightarrow> PublicKey \<Rightarrow> PublicKey \<Rightarrow> PublicKey \<Rightarrow> PublicKey \<Rightarrow> PublicKey \<Rightarrow> PublicKey
     \<Rightarrow> PublicKey \<Rightarrow> byte list \<Rightarrow> int \<Rightarrow> promise" where
  "purchaseAccess dataNexusProgramId userAuthority userAccessAccount userTokenAccount
       ownerAuthority ownerTokenAccount datasetAccount tokenProgram hash amount =
     (case spread_number amount of
        Inl e \<Rightarrow> Inl e
      | Inr amountItems \<Rightarrow>
          Inr (Some \<lparr>
            programId = dataNexusProgramId,
            keys = [
              \<lparr>pubkey = userAuthority, isSigner = True, isWritable = True\<rparr>,
              \<lparr>pubkey = userAccessAccount, isSigner = False, isWritable = True\<rparr>,
              \<lparr>pubkey = userTokenAccount, isSigner = False, isWritable = True\<rparr>,
              \<lparr>pubkey = ownerAuthority, isSigner = False, isWritable = True\<rparr>,
              \<lparr>pubkey = ownerTokenAccount, isSigner = False, isWritable = True\<rparr>,
              \<lparr>pubkey = datasetAccount, isSigner = False, isWritable = False\<rparr>,
              \<lparr>pubkey = tokenProgram, isSigner = False, isWritable = False\<rparr>],
            data = BufferData (Buffer_from
                     (Uint8Array_of (3 # spread_Uint8Array hash @ amountItems)))\<rparr>))"

definition shareAccess ::
  "PublicKey \<Rightarrow> PublicKey \<Rightarrow> PublicKey \<Rightarrow> PublicKey \<Rightarrow> PublicKey \<Rightarrow> PublicKey
     \<Rightarrow> byte list \<Rightarrow> promise" where
  "shareAccess dataNexusProgramId userAuthority userAccessAccount recipientAuthority
       recipientAccessAccount datasetAccount hash =
     Inr (Some \<lparr>
       programId = dataNexusProgramId,
       keys = [
         \<lparr>pubkey = userAuthority, isSigner = True, isWritable = True\<rparr>,
         \<lparr>pubkey = userAccessAccount, isSigner = False, isWritable = True\<rparr>,
         \<lparr>pubkey = recipientAuthority, isSigner = False, isWritable = True\<rparr>,
         \<lparr>pubkey = recipientAccessAccount, isSigner = False, isWritable = True\<rparr>,
         \<lparr>pubkey = datasetAccount, isSigner = False, isWritable = False\<rparr>],
       data = BufferData (Buffer_from (Uint8Array_of (4 # spread_Uint8Array hash)))\<rparr>)"

subsection \<open>The empty builders of \<^verbatim>\<open>js/instruction.ts\<close>, first revision\<close>

text \<open>An empty \<^verbatim>\<open>async\<close> body fulfils its promise with \<^verbatim>\<open>undefined\<close>.\<close>

definition setDataParams_stub ::
  "PublicKey \<Rightarrow> PublicKey \<Rightarrow> byte list \<Rightarrow> Params \<Rightarrow> promise" where
  "setDataParams_stub authority dataSetAccount hash params = Inr None"

definition purchaseAccess_stub ::
  "PublicKey \<Rightarrow> PublicKey \<Rightarrow> PublicKey \<Rightarrow> PublicKey \<Rightarrow> PublicKey \<Rightarrow> PublicKey \<Rightarrow> PublicKey
     \<Rightarrow> byte list \<Rightarrow> int \<Rightarrow> promise" where
  "purchaseAccess_stub userAuthority userAccessAccount userTokenAccount ownerAuthority
       ownerTokenAccount datasetAccount tokenProgram hash amount = Inr None"

definition shareAccess_stub ::
  "PublicKey \<Rightarrow> PublicKey \<Rightarrow> PublicKey \<Rightarrow> PublicKey \<Rightarrow> PublicKey \<Rightarrow> byte list \<Rightarrow> promise" where
  "shareAccess_stub userAuthority userAccessAccount recipientAuthority recipientAccessAccount
       datasetAccount hash = Inr None"

subsection \<open>The builders of \<^verbatim>\<open>js/instruction.ts\<close>, second revision\<close>

definition initDataAccountIx_concat ::
  "PublicKey \<Rightarrow> PublicKey \<Rightarrow> PublicKey \<Rightarrow> PublicKey \<Rightarrow> PublicKey \<Rightarrow> byte list list \<Rightarrow> promise" where
  "initDataAccountIx_concat dataNexusProgramId authority ownerAccount datasetAccount
       systemProgram hash =
     (let buffers = [Buffer_from (Uint8Array_of [1]), Buffer_concat hash] in
      Inr (Some \<lparr>
        programId = dataNexusProgramId,
        keys = [
          \<lparr>pubkey = authority, isSigner = True, isWritable = True\<rparr>,
          \<lparr>pubkey = ownerAccount, isSigner = False, isWritable = True\<rparr>,
          \<lparr>pubkey = datasetAccount, isSigner = False, isWritable = True\<rparr>,
          \<lparr>pubkey = systemProgram, isSigner = False, isWritable = False\<rparr>],
        data = BufferData (Buffer_concat buffers)\<rparr>))"

definition setDataParams_concat ::
  "PublicKey \<Rightarrow> PublicKey \<Rightarrow> PublicKey \<Rightarrow> byte list list \<Rightarrow> Params \<Rightarrow> promise" where
  "setDataParams_concat dataNexusProgramId authority datasetAccount hash params =
     (let buffers = [Buffer_from (Uint8Array_of [2]), Buffer_concat hash] in
      Inr (Some \<lparr>
        programId = dataNexusProgramId,
        keys = [
          \<lparr>pubkey = authority, isSigner = True, isWritable = True\<rparr>,
          \<lparr>pubkey = datasetAccount, isSigner = False, isWritable = True\<rparr>],
        data = BufferData (Buffer_concat buffers)\<rparr>))"

text \<open>
  \<^verbatim>\<open>purchaseAccess\<close> of this revision stores \<^verbatim>\<open>buffers\<close> itself in \<^verbatim>\<open>data\<close>, where its
  siblings store \<^verbatim>\<open>Buffer.concat(buffers)\<close>.
\<close>

definition purchaseAccess_concat ::
  "PublicKey \<Rightarrow> PublicKey \<Rightarrow> PublicKey \<Rightarrow> PublicKey \<Rightarrow> PublicKey \<Rightarrow> PublicKey \<Rightarrow> PublicKey
     \<Rightarrow> PublicKey \<Rightarrow> byte list list \<Rightarrow> Numberu64 \<Rightarrow> promise" where
  "purchaseAccess_concat dataNexusProgramId userAuthority userAccessAccount userTokenAccount
       ownerAuthority ownerTokenAccount datasetAccount tokenProgram hash amount =
     (let buffers = [Buffer_from (Uint8Array_of [3]), Buffer_concat hash,
                     Numberu64_toBuffer amount] in
      Inr (Some \<lparr>
        programId = dataNexusProgramId,
        keys = [
          \<lparr>pubkey = userAuthority, isSigner = True, isWritable = True\<rparr>,
          \<lparr>pubkey = userAccessAccount, isSigner = False, isWritable = True\<rparr>,
          \<lparr>pubkey = userTokenAccount, isSigner = False, isWritable = True\<rparr>,
          \<lparr>pubkey = ownerAuthority, isSigner = False, isWritable = True\<rparr>,
          \<lparr>pubkey = ownerTokenAccount, isSigner = False, isWritable = True\<rparr>,
          \<lparr>pubkey = datasetAccount, isSigner = False, isWritable = False\<rparr>,
          \<lparr>pubkey = tokenProgram, isSigner = False, isWritable = False\<rparr>],
        data = ArrayData buffers\<rparr>))"

definition shareAccess_concat ::
  "PublicKey \<Rightarrow> PublicKey \<Rightarrow> PublicKey \<Rightarrow> PublicKey \<Rightarrow> PublicKey \<Rightarrow> PublicKey
     \<Rightarrow> byte list list \<Rightarrow> promise" where
  "shareAccess_concat dataNexusProgramId userAuthority userAccessAccount recipientAuthority
       recipientAccessAccount datasetAccount hash =
     (let buffers = [Buffer_from (Uint8Array_of [4]), Buffer_concat hash] in
      Inr (Some \<lparr>
        programId = dataNexusProgramId,
        keys = [
          \<lparr>pubkey = userAuthority, isSigner = True, isWritable = True\<rparr>,
          \<lparr>pubkey = userAccessAccount, isSigner = False, isWritable = True\<rparr>,
          \<lparr>pubkey = recipientAuthority, isSigner = False, isWritable = True\<rparr>,
          \<lparr>pubkey = recipientAccessAccount, isSigner = False, isWritable = True\<rparr>,
          \<lparr>pubkey = datasetAccount, isSigner = False, isWritable = False\<rparr>],
        data = BufferData (Buffer_concat buffers)\<rparr>))"

subsection \<open>What a caller observes of a builder's promise\<close>

definition returned_keys :: "promise \<Rightarrow> AccountMeta list option" where
  "returned_keys p = (case p of Inr (Some ix) \<Rightarrow> Some (keys ix) | _ \<Rightarrow> None)"

definition returned_payload :: "promise \<Rightarrow> byte list option" where
  "returned_payload p =
     (case p of
        Inr (Some ix) \<Rightarrow> (case data ix of BufferData bs \<Rightarrow> Some bs | ArrayData _ \<Rightarrow> None)
      | _ \<Rightarrow> None)"

subsection \<open>The opcodes and account tables of the specification\<close>

text \<open>
  These definitions follow the words of the specification (its enumeration of opcodes
  and its table of ordered accounts, each role with its signer and writable flag); the
  builders above are compared with them.
\<close>

datatype Opcode = InitUserAccount | InitDataAccount | SetDataParams | PurchaseAccess | ShareAccess

fun Opcode_value :: "Opcode \<Rightarrow> byte" where
  "Opcode_value InitUserAccount = 0"
| "Opcode_value InitDataAccount = 1"
| "Opcode_value SetDataParams = 2"
| "Opcode_value PurchaseAccess = 3"
| "Opcode_value ShareAccess = 4"

text \<open>Each pair is (signer, writable), in the order of the table.\<close>

fun spec_account_flags :: "Opcode \<Rightarrow> (bool \<times> bool) list" where
  "spec_account_flags InitUserAccount =
     [(True, True), (False, True), (False, True), (False, False)]"
| "spec_account_flags InitDataAccount =
     [(True, True), (False, True), (False, True), (False, False)]"
| "spec_account_flags SetDataParams =
     [(True, True), (False, True)]"
| "spec_account_flags PurchaseAccess =
     [(True, True), (False, True), (False, True), (False, True), (False, True),
      (False, False), (False, False)]"
| "spec_account_flags ShareAccess =
     [(True, True), (False, True), (False, True), (False, True), (False, False)]"

fun account_flags :: "AccountMeta \<Rightarrow> bool \<times> bool" where
  "account_flags a = (isSigner a, isWritable a)"

text \<open>
  An account list matches the table of an operation for the identifiers \<open>ids\<close> of its
  roles when it names these identifiers in this order and carries the flags of the table.
\<close>

definition matches_table :: "Opcode \<Rightarrow> PublicKey list \<Rightarrow> AccountMeta list option \<Rightarrow> bool" where
  "matches_table opc ids r =
     (case r of
        None \<Rightarrow> False
      | Some ks \<Rightarrow> map pubkey ks = ids \<and> map account_flags ks = spec_account_flags opc)"

definition first_only_signs :: "AccountMeta list option \<Rightarrow> bool" where
  "first_only_signs r =
     (case r of
        None \<Rightarrow> False
      | Some ks \<Rightarrow> map isSigner ks = True # replicate (length ks - 1) False)"

definition returned_data :: "promise \<Rightarrow> InstructionData option" where
  "returned_data p = (case p of Inr (Some ix) \<Rightarrow> Some (data ix) | _ \<Rightarrow> None)"

definition returned_payload_length :: "promise \<Rightarrow> nat option" where
  "returned_payload_length p = map_option length (returned_payload p)"

text \<open>Byte 0 of the payload, when the builder returns an instruction whose data is a
  buffer with at least one byte.\<close>

definition payload_byte0 :: "promise \<Rightarrow> byte option" where
  "payload_byte0 p =
     (case returned_payload p of Some (b # _) \<Rightarrow> Some b | _ \<Rightarrow> None)"

subsection \<open>The builders in the state of the process\<close>














section \<open>Properties\<close>

subsection \<open>Auxiliary facts\<close>

lemma Uint8Array_of_spread:
  "Uint8Array_of (c # spread_Uint8Array hash) = word_of_int c # hash"
  by (simp add: Uint8Array_of_def spread_Uint8Array_def o_def)

lemma Uint8Array_of_single: "Uint8Array_of [c] = [word_of_int c]"
  by (simp add: Uint8Array_of_def)

lemma Numberu64_toBuffer_length: "length (Numberu64_toBuffer amount) = 8"
  by (simp add: Numberu64_toBuffer_def)

lemma Numberu64_toBuffer_one: "Numberu64_toBuffer 1 = [1, 0, 0, 0, 0, 0, 0, 0]"
  by (simp add: Numberu64_toBuffer_def)

lemmas observer_defs =
  returned_keys_def returned_payload_def returned_data_def returned_payload_length_def
  payload_byte0_def

lemmas buffer_defs = Buffer_from_def Buffer_concat_def

subsection \<open>Account lists\<close>

text \<open>
  Every builder that constructs an instruction gives it the account list of the
  specification's table for its operation: the same number of accounts, the
  caller's identifiers in the order of the roles, and the signer and writable flag of
  each position. These are the five builders of the \<open>_concat\<close> revision and
  \<^verbatim>\<open>initUserAccountIx\<close>, \<^verbatim>\<open>initDataAccountIx\<close> and \<^verbatim>\<open>shareAccess\<close> of
  \<^verbatim>\<open>js/src/instruction.ts\<close>.
\<close>

lemma returned_account_lists_match_table:
  "matches_table InitUserAccount [payer, authority, userAccount, systemProgram]
     (returned_keys
        (initUserAccountIx pid payer authority userAccount systemProgram accountType))
   \<and> matches_table InitDataAccount [authority, ownerAccount, datasetAccount, systemProgram]
     (returned_keys
        (initDataAccountIx pid authority ownerAccount datasetAccount systemProgram hash))
   \<and> matches_table InitDataAccount [authority, ownerAccount, datasetAccount, systemProgram]
     (returned_keys
        (initDataAccountIx_concat pid authority ownerAccount datasetAccount systemProgram
           hashes))
   \<and> matches_table SetDataParams [authority, datasetAccount]
     (returned_keys (setDataParams_concat pid authority datasetAccount hashes params))
   \<and> matches_table PurchaseAccess
        [userAuthority, userAccessAccount, userTokenAccount, ownerAuthority,
         ownerTokenAccount, datasetAccount, tokenProgram]
     (returned_keys
        (purchaseAccess_concat pid userAuthority userAccessAccount userTokenAccount
           ownerAuthority ownerTokenAccount datasetAccount tokenProgram hashes amount))
   \<and> map_option length
       (returned_keys
          (purchaseAccess_concat pid userAuthority userAccessAccount userTokenAccount
             ownerAuthority ownerTokenAccount datasetAccount tokenProgram hashes amount))
       = Some 7
   \<and> matches_table ShareAccess
        [userAuthority, userAccessAccount, recipientAuthority, recipientAccessAccount,
         datasetAccount]
     (returned_keys
        (shareAccess pid userAuthority userAccessAccount recipientAuthority
           recipientAccessAccount datasetAccount hash))
   \<and> matches_table ShareAccess
        [userAuthority, userAccessAccount, recipientAuthority, recipientAccessAccount,
         datasetAccount]
     (returned_keys
        (shareAccess_concat pid userAuthority userAccessAccount recipientAuthority
           recipientAccessAccount datasetAccount hashes))"
  by (simp add: matches_table_def returned_keys_def Let_def
      initUserAccountIx_def initDataAccountIx_def initDataAccountIx_concat_def
      setDataParams_concat_def purchaseAccess_concat_def shareAccess_def
      shareAccess_concat_def)

text \<open>
  In the account list of each of these builders exactly one account signs, and it is the
  first of the list.
\<close>

lemma returned_account_lists_first_signs:
  "first_only_signs
     (returned_keys
        (initUserAccountIx pid payer authority userAccount systemProgram accountType))
   \<and> first_only_signs
     (returned_keys
        (initDataAccountIx pid authority ownerAccount datasetAccount systemProgram hash))
   \<and> first_only_signs
     (returned_keys
        (initDataAccountIx_concat pid authority ownerAccount datasetAccount systemProgram
           hashes))
   \<and> first_only_signs
     (returned_keys (setDataParams_concat pid authority datasetAccount hashes params))
   \<and> first_only_signs
     (returned_keys
        (purchaseAccess_concat pid userAuthority userAccessAccount userTokenAccount
           ownerAuthority ownerTokenAccount datasetAccount tokenProgram hashes amount))
   \<and> first_only_signs
     (returned_keys
        (shareAccess pid userAuthority userAccessAccount recipientAuthority
           recipientAccessAccount datasetAccount hash))
   \<and> first_only_signs
     (returned_keys
        (shareAccess_concat pid userAuthority userAccessAccount recipientAuthority
           recipientAccessAccount datasetAccount hashes))"
  by (simp add: first_only_signs_def returned_keys_def Let_def
      initUserAccountIx_def initDataAccountIx_def initDataAccountIx_concat_def
      setDataParams_concat_def purchaseAccess_concat_def shareAccess_def
      shareAccess_concat_def)

subsection \<open>Payloads\<close>

text \<open>
  Claim C6. For every input the payload returned by \<^verbatim>\<open>initUserAccountIx\<close> is exactly
  2 bytes, the opcode 0 and the byte of the account type, and for the account type
  \<^verbatim>\<open>ACCESS\<close> (value 1) it is the two bytes 0x00, 0x01.
\<close>

theorem initUserAccountIx_payload:
  "returned_payload_length
     (initUserAccountIx pid payer authority userAccount systemProgram accountType) = Some 2
   \<and> returned_payload
     (initUserAccountIx pid payer authority userAccount systemProgram accountType)
     = Some [0, word_of_int (AccountType_value accountType)]
   \<and> returned_payload (initUserAccountIx pid payer authority userAccount systemProgram ACCESS)
     = Some [0, 1]"
  by (simp add: initUserAccountIx_def observer_defs buffer_defs Uint8Array_of_def)

text \<open>
  Claim C10. The builders that take a hash do not look at its length: for a hash of any
  length \<open>n\<close>, \<^verbatim>\<open>initDataAccountIx\<close> and \<^verbatim>\<open>shareAccess\<close> return an instruction whose
  payload is the opcode followed by the bytes of the hash as they are, \<open>1 + n\<close> bytes
  in all. The same holds of the \<open>_concat\<close> revision, where the hash is the
  concatenation of the buffers given.
\<close>

theorem hash_payload_any_length:
  "returned_payload
     (initDataAccountIx pid authority ownerAccount datasetAccount systemProgram hash)
     = Some (1 # hash)
   \<and> returned_payload_length
     (initDataAccountIx pid authority ownerAccount datasetAccount systemProgram hash)
     = Some (1 + length hash)
   \<and> returned_payload
     (shareAccess pid userAuthority userAccessAccount recipientAuthority
        recipientAccessAccount datasetAccount hash)
     = Some (4 # hash)
   \<and> returned_payload_length
     (shareAccess pid userAuthority userAccessAccount recipientAuthority
        recipientAccessAccount datasetAccount hash)
     = Some (1 + length hash)
   \<and> returned_payload
     (initDataAccountIx_concat pid authority ownerAccount datasetAccount systemProgram hashes)
     = Some (1 # concat hashes)
   \<and> returned_payload_length
     (initDataAccountIx_concat pid authority ownerAccount datasetAccount systemProgram hashes)
     = Some (1 + length (concat hashes))
   \<and> returned_payload
     (shareAccess_concat pid userAuthority userAccessAccount recipientAuthority
        recipientAccessAccount datasetAccount hashes)
     = Some (4 # concat hashes)
   \<and> returned_payload_length
     (shareAccess_concat pid userAuthority userAccessAccount recipientAuthority
        recipientAccessAccount datasetAccount hashes)
     = Some (1 + length (concat hashes))"
  by (simp add: initDataAccountIx_def shareAccess_def initDataAccountIx_concat_def
      shareAccess_concat_def observer_defs buffer_defs Uint8Array_of_spread
      Uint8Array_of_single Let_def)

text \<open>
  Claim C9. The result of \<^verbatim>\<open>setDataParams\<close> does not depend on its \<^verbatim>\<open>params\<close> argument:
  two calls that differ in \<^verbatim>\<open>params\<close> only have the same outcome, hence the same program
  identifier, account list and payload, in each of the three revisions.
\<close>

theorem setDataParams_ignores_params:
  "setDataParams pid authority dataSetAccount hash params
     = setDataParams pid authority dataSetAccount hash params'
   \<and> setDataParams_stub authority dataSetAccount hash params
     = setDataParams_stub authority dataSetAccount hash params'
   \<and> setDataParams_concat pid authority dataSetAccount hashes params
     = setDataParams_concat pid authority dataSetAccount hashes params'"
  by (simp add: setDataParams_def setDataParams_stub_def setDataParams_concat_def)

text \<open>
  Claim C4, as stated, fails: with a hash of 32 zero bytes and a \<^verbatim>\<open>Params\<close> value of one
  byte, the payload of \<^verbatim>\<open>setDataParams\<close> has 33 bytes, not 34.
\<close>

theorem setDataParams_length_counterexample:
  "returned_payload_length
     (setDataParams_concat (PublicKey [0]) (PublicKey [1]) (PublicKey [2])
        [replicate 32 0] [42]) = Some 33
   \<and> returned_payload_length
     (setDataParams_concat (PublicKey [0]) (PublicKey [1]) (PublicKey [2])
        [replicate 32 0] [42]) \<noteq> Some (33 + length [42 :: byte])"
  by (simp add: setDataParams_concat_def observer_defs buffer_defs Uint8Array_of_single
      Let_def)

text \<open>
  Claim C4, amended. For every input whose hash has 32 bytes, whatever the \<^verbatim>\<open>Params\<close>
  value, the payload returned by \<^verbatim>\<open>setDataParams\<close> of the \<open>_concat\<close> revision has exactly
  33 bytes: the opcode 2 followed by the 32 bytes of the hash. The bytes of \<^verbatim>\<open>Params\<close> are
  not appended.
\<close>

theorem setDataParams_payload_length:
  "length (concat hashes) = 32 \<Longrightarrow>
   returned_payload (setDataParams_concat pid authority datasetAccount hashes params)
     = Some (2 # concat hashes)
   \<and> returned_payload_length
        (setDataParams_concat pid authority datasetAccount hashes params) = Some 33"
  by (simp add: setDataParams_concat_def observer_defs buffer_defs Uint8Array_of_single
      Let_def)

theorem setDataParams_payload_length_witness:
  "length (concat [replicate 32 (0 :: byte)]) = 32
   \<and> returned_payload
       (setDataParams_concat (PublicKey [0]) (PublicKey [1]) (PublicKey [2])
          [replicate 32 0] [42, 43]) = Some (2 # replicate 32 0)
   \<and> returned_payload_length
       (setDataParams_concat (PublicKey [0]) (PublicKey [1]) (PublicKey [2])
          [replicate 32 0] [42, 43]) = Some 33"
proof -
  have h: "length (concat [replicate 32 (0 :: byte)]) = 32"
    by simp
  show ?thesis
    using h setDataParams_payload_length [OF h, of "PublicKey [0]" "PublicKey [1]"
        "PublicKey [2]" "[42, 43]"]
    by simp
qed

subsection \<open>Determinism\<close>



subsection \<open>Where the builders fall short\<close>

lemma returned_payload_rejected: "returned_payload (Inl e) = None"
  by (simp add: returned_payload_def)

lemma returned_payload_undefined: "returned_payload (Inr None) = None"
  by (simp add: returned_payload_def)

lemma purchaseAccess_rejects:
  "purchaseAccess pid userAuthority userAccessAccount userTokenAccount ownerAuthority
     ownerTokenAccount datasetAccount tokenProgram hash amount = Inl TypeError"
  by (simp add: purchaseAccess_def spread_number_def)

lemma setDataParams_rejects:
  "setDataParams pid authority dataSetAccount hash params = Inl ReferenceError"
  by (simp add: setDataParams_def module_scope_datasetAccount_def)

lemma purchaseAccess_concat_data:
  "returned_data
     (purchaseAccess_concat pid userAuthority userAccessAccount userTokenAccount
        ownerAuthority ownerTokenAccount datasetAccount tokenProgram hashes amount)
   = Some (ArrayData [[3], concat hashes, Numberu64_toBuffer amount])"
  by (simp add: purchaseAccess_concat_def returned_data_def buffer_defs
      Uint8Array_of_single Let_def)

lemma purchaseAccess_concat_no_payload:
  "returned_payload
     (purchaseAccess_concat pid userAuthority userAccessAccount userTokenAccount
        ownerAuthority ownerTokenAccount datasetAccount tokenProgram hashes amount) = None"
  by (simp add: purchaseAccess_concat_def returned_payload_def Let_def)

lemma returned_keys_rejected: "returned_keys (Inl e) = None"
  by (simp add: returned_keys_def)

lemma returned_keys_undefined: "returned_keys (Inr None) = None"
  by (simp add: returned_keys_def)

text \<open>
  Claim C1 fails on the builders that construct no instruction. \<^verbatim>\<open>setDataParams\<close> of
  \<^verbatim>\<open>js/src/instruction.ts\<close> writes the account list of the table, but its second entry
  reads \<^verbatim>\<open>datasetAccount\<close> where the parameter is \<^verbatim>\<open>dataSetAccount\<close>: the call rejects with
  a \<^verbatim>\<open>ReferenceError\<close> and returns no account list, so none that matches the two
  accounts of the table. \<^verbatim>\<open>purchaseAccess\<close> of that file rejects with a \<^verbatim>\<open>TypeError\<close>, and
  the three empty builders return \<^verbatim>\<open>undefined\<close>: no seven references for
  \<^verbatim>\<open>PurchaseAccess\<close> there.
\<close>

theorem account_list_absent:
  "returned_keys
     (setDataParams (PublicKey [0]) (PublicKey [1]) (PublicKey [2]) (replicate 32 0) [42])
     = None
   \<and> matches_table SetDataParams [PublicKey [1], PublicKey [2]]
       (returned_keys
          (setDataParams (PublicKey [0]) (PublicKey [1]) (PublicKey [2]) (replicate 32 0)
             [42])) = False
   \<and> matches_table PurchaseAccess
       [PublicKey [1], PublicKey [2], PublicKey [3], PublicKey [4], PublicKey [5],
        PublicKey [6], PublicKey [7]]
       (returned_keys
          (purchaseAccess (PublicKey [0]) (PublicKey [1]) (PublicKey [2]) (PublicKey [3])
             (PublicKey [4]) (PublicKey [5]) (PublicKey [6]) (PublicKey [7])
             (replicate 32 0) 1)) = False
   \<and> matches_table SetDataParams [PublicKey [1], PublicKey [2]]
       (returned_keys
          (setDataParams_stub (PublicKey [1]) (PublicKey [2]) (replicate 32 0) [42])) = False
   \<and> matches_table PurchaseAccess
       [PublicKey [1], PublicKey [2], PublicKey [3], PublicKey [4], PublicKey [5],
        PublicKey [6], PublicKey [7]]
       (returned_keys
          (purchaseAccess_stub (PublicKey [1]) (PublicKey [2]) (PublicKey [3])
             (PublicKey [4]) (PublicKey [5]) (PublicKey [6]) (PublicKey [7])
             (replicate 32 0) 1)) = False
   \<and> matches_table ShareAccess
       [PublicKey [1], PublicKey [2], PublicKey [3], PublicKey [4], PublicKey [5]]
       (returned_keys
          (shareAccess_stub (PublicKey [1]) (PublicKey [2]) (PublicKey [3]) (PublicKey [4])
             (PublicKey [5]) (replicate 32 0))) = False"
  by (simp add: setDataParams_rejects purchaseAccess_rejects setDataParams_stub_def
      purchaseAccess_stub_def shareAccess_stub_def returned_keys_rejected
      returned_keys_undefined matches_table_def)

text \<open>
  Claim C8 fails on two builders that have a body. With a hash of 32 bytes 0xFF,
  \<^verbatim>\<open>setDataParams\<close> of \<^verbatim>\<open>js/src/instruction.ts\<close> rejects with a \<^verbatim>\<open>ReferenceError\<close> and
  \<^verbatim>\<open>purchaseAccess\<close> of that file with a \<^verbatim>\<open>TypeError\<close>: neither produces an account
  list, so neither has a first account that signs.
\<close>

theorem signer_absent:
  "setDataParams (PublicKey [0]) (PublicKey [1]) (PublicKey [2]) (replicate 32 255) []
     = Inl ReferenceError
   \<and> first_only_signs
       (returned_keys
          (setDataParams (PublicKey [0]) (PublicKey [1]) (PublicKey [2]) (replicate 32 255)
             [])) = False
   \<and> purchaseAccess (PublicKey [0]) (PublicKey [1]) (PublicKey [2]) (PublicKey [3])
        (PublicKey [4]) (PublicKey [5]) (PublicKey [6]) (PublicKey [7])
        (replicate 32 255) 7 = Inl TypeError
   \<and> first_only_signs
       (returned_keys
          (purchaseAccess (PublicKey [0]) (PublicKey [1]) (PublicKey [2]) (PublicKey [3])
             (PublicKey [4]) (PublicKey [5]) (PublicKey [6]) (PublicKey [7])
             (replicate 32 255) 7)) = False"
  by (simp add: setDataParams_rejects purchaseAccess_rejects returned_keys_rejected
      first_only_signs_def)

text \<open>
  The opcode is byte 0 of the payload of every builder that returns a buffer: all but
  \<^verbatim>\<open>purchaseAccess\<close>.
\<close>

lemma opcode_byte_first:
  "payload_byte0 (initUserAccountIx pid payer authority userAccount systemProgram accountType)
     = Some (Opcode_value InitUserAccount)"
  "payload_byte0
     (initDataAccountIx pid authority ownerAccount datasetAccount systemProgram hash)
     = Some (Opcode_value InitDataAccount)"
  "payload_byte0
     (initDataAccountIx_concat pid authority ownerAccount datasetAccount systemProgram hashes)
     = Some (Opcode_value InitDataAccount)"
  "payload_byte0 (setDataParams_concat pid authority datasetAccount hashes params)
     = Some (Opcode_value SetDataParams)"
  "payload_byte0
     (shareAccess pid userAuthority userAccessAccount recipientAuthority
        recipientAccessAccount datasetAccount hash)
     = Some (Opcode_value ShareAccess)"
  "payload_byte0
     (shareAccess_concat pid userAuthority userAccessAccount recipientAuthority
        recipientAccessAccount datasetAccount hashes)
     = Some (Opcode_value ShareAccess)"
  by (simp_all add: initUserAccountIx_def initDataAccountIx_def initDataAccountIx_concat_def
      setDataParams_concat_def shareAccess_def shareAccess_concat_def observer_defs
      buffer_defs Uint8Array_of_spread Uint8Array_of_single Uint8Array_of_def Let_def)

text \<open>
  Claim C2 fails on \<^verbatim>\<open>purchaseAccess\<close>. With a hash of 32 bytes 0xFF and the amount 5, the
  \<open>_concat\<close> revision returns an instruction whose data is an array of three buffers,
  so that item 0 of the data is the buffer holding the opcode and not the byte 3, and
  \<^verbatim>\<open>js/src/instruction.ts\<close> rejects with a \<^verbatim>\<open>TypeError\<close>: no revision returns a payload
  whose byte 0 is 3.
\<close>

theorem purchaseAccess_opcode_byte_absent:
  "returned_data
     (purchaseAccess_concat (PublicKey [0]) (PublicKey [1]) (PublicKey [2]) (PublicKey [3])
        (PublicKey [4]) (PublicKey [5]) (PublicKey [6]) (PublicKey [7])
        [replicate 32 255] 5)
     = Some (ArrayData [[3], replicate 32 255, [5, 0, 0, 0, 0, 0, 0, 0]])
   \<and> payload_byte0
     (purchaseAccess_concat (PublicKey [0]) (PublicKey [1]) (PublicKey [2]) (PublicKey [3])
        (PublicKey [4]) (PublicKey [5]) (PublicKey [6]) (PublicKey [7])
        [replicate 32 255] 5) = None
   \<and> payload_byte0
     (purchaseAccess (PublicKey [0]) (PublicKey [1]) (PublicKey [2]) (PublicKey [3])
        (PublicKey [4]) (PublicKey [5]) (PublicKey [6]) (PublicKey [7])
        (replicate 32 255) 5) = None
   \<and> payload_byte0
     (purchaseAccess_stub (PublicKey [1]) (PublicKey [2]) (PublicKey [3])
        (PublicKey [4]) (PublicKey [5]) (PublicKey [6]) (PublicKey [7])
        (replicate 32 255) 5) = None"
  by (simp add: purchaseAccess_concat_data purchaseAccess_concat_no_payload
      purchaseAccess_rejects purchaseAccess_stub_def payload_byte0_def
      returned_payload_rejected returned_payload_undefined Numberu64_toBuffer_def)

text \<open>
  Claim C3 fails. With a hash of 32 zero bytes and the amount 1, \<^verbatim>\<open>purchaseAccess\<close> of the
  \<open>_concat\<close> revision returns the three buffers (opcode, hash, amount) as an array, not
  the 42 bytes of their concatenation, and \<^verbatim>\<open>purchaseAccess\<close> of
  \<^verbatim>\<open>js/src/instruction.ts\<close> rejects with a \<^verbatim>\<open>TypeError\<close>.
\<close>

theorem purchaseAccess_scenario_data:
  "returned_data
     (purchaseAccess_concat (PublicKey [0]) (PublicKey [1]) (PublicKey [2]) (PublicKey [3])
        (PublicKey [4]) (PublicKey [5]) (PublicKey [6]) (PublicKey [7])
        [replicate 32 0] 1)
     = Some (ArrayData [[3], replicate 32 0, [1, 0, 0, 0, 0, 0, 0, 0]])
   \<and> returned_payload
     (purchaseAccess_concat (PublicKey [0]) (PublicKey [1]) (PublicKey [2]) (PublicKey [3])
        (PublicKey [4]) (PublicKey [5]) (PublicKey [6]) (PublicKey [7])
        [replicate 32 0] 1) = None
   \<and> purchaseAccess (PublicKey [0]) (PublicKey [1]) (PublicKey [2]) (PublicKey [3])
        (PublicKey [4]) (PublicKey [5]) (PublicKey [6]) (PublicKey [7])
        (replicate 32 0) 1 = Inl TypeError"
  by (simp add: purchaseAccess_concat_data purchaseAccess_concat_no_payload
      purchaseAccess_rejects Numberu64_toBuffer_one)

text \<open>
  Claim C5 fails. On a hash of 32 zero bytes, the three empty builders fulfil their
  promise with \<^verbatim>\<open>undefined\<close>, and in \<^verbatim>\<open>js/src/instruction.ts\<close> \<^verbatim>\<open>purchaseAccess\<close> rejects
  with a \<^verbatim>\<open>TypeError\<close> and \<^verbatim>\<open>setDataParams\<close> with a \<^verbatim>\<open>ReferenceError\<close>.
\<close>

theorem builders_not_total:
  "setDataParams_stub (PublicKey [1]) (PublicKey [2]) (replicate 32 0) [42] = Inr None
   \<and> purchaseAccess_stub (PublicKey [1]) (PublicKey [2]) (PublicKey [3]) (PublicKey [4])
        (PublicKey [5]) (PublicKey [6]) (PublicKey [7]) (replicate 32 0) 1 = Inr None
   \<and> shareAccess_stub (PublicKey [1]) (PublicKey [2]) (PublicKey [3]) (PublicKey [4])
        (PublicKey [5]) (replicate 32 0) = Inr None
   \<and> purchaseAccess (PublicKey [0]) (PublicKey [1]) (PublicKey [2]) (PublicKey [3])
        (PublicKey [4]) (PublicKey [5]) (PublicKey [6]) (PublicKey [7])
        (replicate 32 0) 1 = Inl TypeError
   \<and> setDataParams (PublicKey [0]) (PublicKey [1]) (PublicKey [2]) (replicate 32 0) [42]
        = Inl ReferenceError"
  by (simp add: setDataParams_stub_def purchaseAccess_stub_def shareAccess_stub_def
      purchaseAccess_rejects setDataParams_rejects)

end
